theory Spec2Isabelle
  imports Main "HOL-Library.AList"
begin

section \<open>Go values as the reflection library presents them\<close>

text \<open>
  The validation engine inspects every value through Go's \<^verbatim>\<open>reflect\<close> package.
  The model keeps what the engine looks at: the kind of a value, its nil-ness, its
  type, the elements of containers and the fields of structs with their addresses.
\<close>

datatype kind =
    KInvalid | KBool
  | KInt | KInt8 | KInt16 | KInt32 | KInt64
  | KUint | KUint8 | KUint16 | KUint32 | KUint64 | KUintptr
  | KFloat32 | KFloat64 | KComplex64 | KComplex128
  | KArray | KChan | KFunc | KInterface | KMap | KPointer | KSlice
  | KString | KStruct | KUnsafePointer

text \<open>The numeric value of a \<^verbatim>\<open>reflect.Kind\<close> constant (an iota enumeration).\<close>

fun kind_num :: "kind \<Rightarrow> nat" where
  "kind_num KInvalid = 0" | "kind_num KBool = 1"
| "kind_num KInt = 2" | "kind_num KInt8 = 3" | "kind_num KInt16 = 4"
| "kind_num KInt32 = 5" | "kind_num KInt64 = 6"
| "kind_num KUint = 7" | "kind_num KUint8 = 8" | "kind_num KUint16 = 9"
| "kind_num KUint32 = 10" | "kind_num KUint64 = 11" | "kind_num KUintptr = 12"
| "kind_num KFloat32 = 13" | "kind_num KFloat64 = 14"
| "kind_num KComplex64 = 15" | "kind_num KComplex128 = 16"
| "kind_num KArray = 17" | "kind_num KChan = 18" | "kind_num KFunc = 19"
| "kind_num KInterface = 20" | "kind_num KMap = 21" | "kind_num KPointer = 22"
| "kind_num KSlice = 23" | "kind_num KString = 24" | "kind_num KStruct = 25"
| "kind_num KUnsafePointer = 26"

datatype chandir = RecvDir | SendDir | BothDir

datatype isize = W0 | W8 | W16 | W32 | W64

text \<open>
  Go types. \<open>TBase k\<close> is the predeclared type of a basic kind (\<^verbatim>\<open>bool\<close>,
  \<^verbatim>\<open>int\<close>, \<^verbatim>\<open>string\<close>, ...); \<open>TNamed n u\<close> is a defined type \<^verbatim>\<open>type n u\<close>
  with underlying type \<open>u\<close>; an interface type lists its method names.
\<close>

datatype gtype =
    TBase kind
  | TNamed string gtype
  | TPtr gtype
  | TSlice gtype
  | TArray nat gtype
  | TMap gtype gtype
  | TChan chandir gtype
  | TFunc string
  | TInterface "string list"
  | TStruct "(string \<times> gtype) list"

datatype val =
    VNil
  | VBool bool
  | VInt isize int
  | VUint isize nat
  | VUintptr nat
  | VFloat32 nat
  | VFloat64 nat
  | VComplex64 nat nat
  | VComplex128 nat nat
  | VString string
  | VUnsafePointer nat
  | VPtr gtype "(nat \<times> val) option"
  | VIface gtype val
  | VSlice gtype "val list option"
  | VArray gtype "val list"
  | VMap gtype gtype "(val \<times> val) list option"
  | VChan chandir gtype bool
  | VFunc string bool
  | VStruct "fld list"
  | VNamed string val
and fld =
    Fld (fname: string) (ftype: gtype) (ftag: "(string \<times> string) list")
        (fanon: bool) (faddr: nat) (fval: val)


text \<open>
  \<open>VNil\<close> is the nil interface (no type, no value). \<open>VPtr t None\<close> is a nil pointer
  of type \<^verbatim>\<open>*t\<close>, \<open>VPtr t (Some (a, v))\<close> points to \<open>v\<close> stored at address \<open>a\<close>.
  \<open>VIface t d\<close> is a slot of interface type \<open>t\<close> (a container element or a struct
  field) holding the dynamic value \<open>d\<close>, \<open>VNil\<close> when the slot is nil. A map lists its
  entries in the order in which this run iterates over them; Go leaves that order
  open, so the theorems below hold for every order. \<open>VNamed n v\<close> is a value of the
  defined type \<open>n\<close> represented by \<open>v\<close>. Floating-point payloads are bit patterns.
\<close>

fun bare :: "val \<Rightarrow> val" where
  "bare (VNamed n v) = bare v"
| "bare v = v"

fun isize_int :: "isize \<Rightarrow> kind" where
  "isize_int W0 = KInt" | "isize_int W8 = KInt8" | "isize_int W16 = KInt16"
| "isize_int W32 = KInt32" | "isize_int W64 = KInt64"

fun isize_uint :: "isize \<Rightarrow> kind" where
  "isize_uint W0 = KUint" | "isize_uint W8 = KUint8" | "isize_uint W16 = KUint16"
| "isize_uint W32 = KUint32" | "isize_uint W64 = KUint64"

text \<open>\<^verbatim>\<open>reflect.Value.Kind\<close>; the zero Value of \<^verbatim>\<open>reflect.ValueOf(nil)\<close> has kind Invalid.\<close>

fun kind_of :: "val \<Rightarrow> kind" where
  "kind_of VNil = KInvalid"
| "kind_of (VBool b) = KBool"
| "kind_of (VInt w i) = isize_int w"
| "kind_of (VUint w n) = isize_uint w"
| "kind_of (VUintptr n) = KUintptr"
| "kind_of (VFloat32 b) = KFloat32"
| "kind_of (VFloat64 b) = KFloat64"
| "kind_of (VComplex64 r i) = KComplex64"
| "kind_of (VComplex128 r i) = KComplex128"
| "kind_of (VString s) = KString"
| "kind_of (VUnsafePointer a) = KUnsafePointer"
| "kind_of (VPtr t p) = KPointer"
| "kind_of (VIface t d) = KInterface"
| "kind_of (VSlice t xs) = KSlice"
| "kind_of (VArray t xs) = KArray"
| "kind_of (VMap kt et m) = KMap"
| "kind_of (VChan d t n) = KChan"
| "kind_of (VFunc s n) = KFunc"
| "kind_of (VStruct fs) = KStruct"
| "kind_of (VNamed n v) = kind_of v"

text \<open>
  \<^verbatim>\<open>reflect.Value.IsNil\<close>. The library panics on kinds that cannot be nil; every
  call in the engine is guarded by a kind test, so those kinds answer \<open>False\<close> here.
\<close>

fun is_nil :: "val \<Rightarrow> bool" where
  "is_nil (VPtr t p) = (p = None)"
| "is_nil (VIface t d) = (d = VNil)"
| "is_nil (VSlice t xs) = (xs = None)"
| "is_nil (VMap kt et m) = (m = None)"
| "is_nil (VChan d t n) = n"
| "is_nil (VFunc s n) = n"
| "is_nil (VUnsafePointer a) = (a = 0)"
| "is_nil (VNamed n v) = is_nil v"
| "is_nil v = False"

text \<open>
  \<^verbatim>\<open>reflect.Value.Interface\<close>: the value as an \<^verbatim>\<open>any\<close>. A slot of interface kind
  gives its dynamic content, every other value gives itself.
\<close>

definition iface_of :: "val \<Rightarrow> val" where
  "iface_of v = (case bare v of VIface t d \<Rightarrow> d | _ \<Rightarrow> v)"

section \<open>Value classifier\<close>

text \<open>\<^verbatim>\<open>IsNil(v any) (isNil, isWrapped bool)\<close>.\<close>

definition IsNil :: "val \<Rightarrow> bool \<times> bool" where
  "IsNil v =
     (if v = VNil then (True, False)
      else let k = kind_of v in
        if kind_num KChan \<le> kind_num k \<and> kind_num k \<le> kind_num KSlice
        then (is_nil v, True)
        else (False, False))"


section \<open>Errors\<close>

text \<open>
  Modelled from the spec: the values of the external error library \<^verbatim>\<open>xrr\<close>, whose
  source is not part of the repository: a leaf error is a message with a machine code,
  a \<open>Fields\<close> error maps path segments to errors. The engine adds two error types of
  its own. \<open>XErr m c\<close> is \<^verbatim>\<open>xrr.New(m, c)\<close>; \<open>Wrapped e c\<close> is \<^verbatim>\<open>xrr.Wrap(e, xrr.WithCode(c))\<close>;
  \<open>Fields\<close> is the path-keyed container \<^verbatim>\<open>xrr.Fields\<close>, a map from path segment to a
  possibly nil error, kept as an association list with unique keys; \<open>Foreign m\<close> is any
  error that carries no code, such as \<^verbatim>\<open>errors.New(m)\<close>.
\<close>

datatype err =
    XErr string string
  | Wrapped err string
  | Fields "(string \<times> err option) list"
  | ErrFieldNotFound nat
  | ErrFieldPointer nat
  | Foreign string

definition ECInternal :: string where "ECInternal = ''ECInternal''"
definition ECGeneric :: string where "ECGeneric = ''ECGeneric''"
definition ECMapKeyMissing :: string where "ECMapKeyMissing = ''ECMapKeyMissing''"
definition ECMapKeyUnexpected :: string where "ECMapKeyUnexpected = ''ECMapKeyUnexpected''"

text \<open>
  Modelled from the spec: \<^verbatim>\<open>xrr.GetCode\<close> of the external error library: the code an
  error reports through its \<^verbatim>\<open>ErrorCode\<close> method, so the code it was made or wrapped
  with; the generic code for an error without one, the empty string for nil. The code
  that the library reports for a \<open>Fields\<close> value is a parameter \<open>fc\<close>.
\<close>

fun GetCode :: "string \<Rightarrow> err option \<Rightarrow> string" where
  "GetCode fc None = []"
| "GetCode fc (Some (XErr m c)) = c"
| "GetCode fc (Some (Wrapped e c)) = c"
| "GetCode fc (Some (Fields fs)) = fc"
| "GetCode fc (Some (ErrFieldNotFound i)) = ECInternal"
| "GetCode fc (Some (ErrFieldPointer i)) = ECInternal"
| "GetCode fc (Some (Foreign m)) = ECGeneric"

text \<open>\<^verbatim>\<open>setCode(err error, code string) error\<close>.\<close>

definition setCode :: "string \<Rightarrow> err option \<Rightarrow> string \<Rightarrow> err option" where
  "setCode fc e code =
     (case e of
        None \<Rightarrow> None
      | Some x \<Rightarrow>
          if code = [] then Some x
          else if GetCode fc (Some x) = code then Some x
          else Some (Wrapped x code))"


section \<open>Types, formatting and the method environment\<close>

fun type_kind :: "gtype \<Rightarrow> kind" where
  "type_kind (TBase k) = k"
| "type_kind (TNamed n u) = type_kind u"
| "type_kind (TPtr t) = KPointer"
| "type_kind (TSlice t) = KSlice"
| "type_kind (TArray n t) = KArray"
| "type_kind (TMap k t) = KMap"
| "type_kind (TChan d t) = KChan"
| "type_kind (TFunc s) = KFunc"
| "type_kind (TInterface ms) = KInterface"
| "type_kind (TStruct fs) = KStruct"

text \<open>
  \<^verbatim>\<open>reflect.Value.Type\<close>; it panics on the zero Value, which is \<open>None\<close> here. A
  slot of interface kind has its static interface type.
\<close>

fun typeOf :: "val \<Rightarrow> gtype option" where
  "typeOf VNil = None"
| "typeOf (VBool b) = Some (TBase KBool)"
| "typeOf (VInt w i) = Some (TBase (isize_int w))"
| "typeOf (VUint w n) = Some (TBase (isize_uint w))"
| "typeOf (VUintptr n) = Some (TBase KUintptr)"
| "typeOf (VFloat32 b) = Some (TBase KFloat32)"
| "typeOf (VFloat64 b) = Some (TBase KFloat64)"
| "typeOf (VComplex64 r i) = Some (TBase KComplex64)"
| "typeOf (VComplex128 r i) = Some (TBase KComplex128)"
| "typeOf (VString s) = Some (TBase KString)"
| "typeOf (VUnsafePointer a) = Some (TBase KUnsafePointer)"
| "typeOf (VPtr t p) = Some (TPtr t)"
| "typeOf (VIface t d) = Some t"
| "typeOf (VSlice t xs) = Some (TSlice t)"
| "typeOf (VArray t xs) = Some (TArray (length xs) t)"
| "typeOf (VMap kt et m) = Some (TMap kt et)"
| "typeOf (VChan d t n) = Some (TChan d t)"
| "typeOf (VFunc s n) = Some (TFunc s)"
| "typeOf (VStruct fs) = Some (TStruct (map (\<lambda>f. (fname f, ftype f)) fs))"
| "typeOf (VNamed n v) = map_option (TNamed n) (typeOf v)"

text \<open>Decimal rendering, as \<^verbatim>\<open>strconv.Itoa\<close>, \<^verbatim>\<open>FormatInt\<close> and \<^verbatim>\<open>FormatUint\<close> in base 10.\<close>

definition digit :: "nat \<Rightarrow> char" where
  "digit n = char_of (48 + n)"

function FormatUint :: "nat \<Rightarrow> string" where
  "FormatUint n = (if n < 10 then [digit n] else FormatUint (n div 10) @ [digit (n mod 10)])"
  by pat_completeness auto
termination
  by (relation "measure id") auto

declare FormatUint.simps [simp del]

definition FormatInt :: "int \<Rightarrow> string" where
  "FormatInt i = (if i < 0 then CHR ''-'' # FormatUint (nat (- i)) else FormatUint (nat i))"

definition Itoa :: "nat \<Rightarrow> string" where
  "Itoa i = FormatInt (int i)"

datatype 'a res = Panic | Ret 'a

text \<open>
  A rule is the skip marker \<^verbatim>\<open>skipRule(b)\<close> or any other implementation of the
  \<^verbatim>\<open>Rule\<close> interface, given by its \<^verbatim>\<open>Validate\<close> method.
\<close>

datatype rule = SkipRule bool | Rule "val \<Rightarrow> err option"

fun rule_Validate :: "rule \<Rightarrow> val \<Rightarrow> err option" where
  "rule_Validate (SkipRule b) v = None"
| "rule_Validate (Rule f) v = f v"

text \<open>\<^verbatim>\<open>s, ok := rule.(skipRule); ok && bool(s)\<close>\<close>

fun active_skip :: "rule \<Rightarrow> bool" where
  "active_skip (SkipRule b) = b"
| "active_skip (Rule f) = False"

text \<open>
  What the program around the engine contributes: the methods that the types of the
  validated values declare, the formatting of the standard library, the rendering of
  the error library, and the package variable \<^verbatim>\<open>ErrorTag\<close>.
  \<^item> \<open>withValidator v\<close>: the \<^verbatim>\<open>ValidateWith\<close> method of \<open>v\<close>, when its type has one;
  \<^item> \<open>validator v\<close>: the result of the \<^verbatim>\<open>Validate\<close> method of \<open>v\<close>, when its type has one;
  \<^item> \<open>implementsValidator t\<close>: type \<open>t\<close> implements \<^verbatim>\<open>Validator\<close>;
  \<^item> \<open>isZeroer v\<close>: the result of \<^verbatim>\<open>v.IsZero()\<close>, when the type has that method;
  \<^item> \<open>valuer v\<close>: \<^verbatim>\<open>driver.Valuer\<close>: \<open>Some (Some x)\<close> when \<^verbatim>\<open>v.Value()\<close> returns
    \<open>x\<close> without error, \<open>Some None\<close> when it returns an error;
  \<^item> \<open>hasMethod t m\<close>: the method set of \<open>t\<close> contains \<open>m\<close>;
  \<^item> \<open>sprintV v\<close>: \<^verbatim>\<open>fmt.Sprintf("%v", v)\<close>; \<open>typeString t\<close>: \<^verbatim>\<open>t.String()\<close>;
  \<^item> \<open>fieldsError fs\<close>: the \<^verbatim>\<open>Error()\<close> text of a \<open>Fields\<close> value; \<open>fieldsCode\<close>: its code.
\<close>

record env =
  withValidator :: "val \<Rightarrow> (rule \<Rightarrow> err option) option"
  validator :: "val \<Rightarrow> err option option"
  implementsValidator :: "gtype \<Rightarrow> bool"
  isZeroer :: "val \<Rightarrow> bool option"
  valuer :: "val \<Rightarrow> val option option"
  hasMethod :: "gtype \<Rightarrow> string \<Rightarrow> bool"
  sprintV :: "val \<Rightarrow> string"
  typeString :: "gtype \<Rightarrow> string"
  fieldsError :: "(string \<times> err option) list \<Rightarrow> string"
  fieldsCode :: string
  errorTag :: string

text \<open>A type assertion on the nil interface fails whatever the asserted interface is.\<close>

definition as_WithValidator :: "env \<Rightarrow> val \<Rightarrow> (rule \<Rightarrow> err option) option" where
  "as_WithValidator E v = (if v = VNil then None else withValidator E v)"

definition as_Validator :: "env \<Rightarrow> val \<Rightarrow> err option option" where
  "as_Validator E v = (if v = VNil then None else validator E v)"

text \<open>
  The \<^verbatim>\<open>Error()\<close> text of an error: the message of a leaf error, which wrapping with a
  code keeps; the texts of the engine's own error types as their methods print them.
\<close>

fun errorString :: "env \<Rightarrow> err \<Rightarrow> string" where
  "errorString E (XErr m c) = m"
| "errorString E (Wrapped e c) = errorString E e"
| "errorString E (Fields fs) = fieldsError E fs"
| "errorString E (ErrFieldNotFound i) =
     ''the field #'' @ Itoa i @ '' cannot be found in the struct''"
| "errorString E (ErrFieldPointer i) =
     ''field #'' @ Itoa i @ '' must be specified as a pointer''"
| "errorString E (Foreign m) = m"

text \<open>\<^verbatim>\<open>reflect.Value.String\<close>.\<close>

definition value_String :: "env \<Rightarrow> val \<Rightarrow> string" where
  "value_String E v =
     (case bare v of
        VString s \<Rightarrow> s
      | _ \<Rightarrow> (case typeOf v of
                None \<Rightarrow> ''<invalid Value>''
              | Some t \<Rightarrow> ''<'' @ typeString E t @ '' Value>''))"

text \<open>\<^verbatim>\<open>reflect.Value.Elem\<close> of a pointer or an interface slot; the zero Value when nil.\<close>

definition elem_val :: "val \<Rightarrow> val" where
  "elem_val v =
     (case bare v of
        VPtr t (Some (a, p)) \<Rightarrow> p
      | VIface t d \<Rightarrow> d
      | _ \<Rightarrow> VNil)"

text \<open>\<^verbatim>\<open>mapErrKey(value reflect.Value) string\<close>.\<close>

definition mapErrKey :: "env \<Rightarrow> val \<Rightarrow> string" where
  "mapErrKey E v =
     (case bare v of
        VPtr t p \<Rightarrow> if is_nil v then [] else value_String E (elem_val v)
      | VIface t d \<Rightarrow> if is_nil v then [] else value_String E (elem_val v)
      | VInt w i \<Rightarrow> FormatInt i
      | VUint w n \<Rightarrow> FormatUint n
      | _ \<Rightarrow> value_String E v)"


section \<open>Validation dispatcher\<close>

type_synonym fields = "(string \<times> err option) list"

text \<open>
  One rule applied to the value inside the loop of \<^verbatim>\<open>Validate\<close>: through the value's
  \<^verbatim>\<open>ValidateWith\<close> when it has one, directly otherwise.
\<close>

definition apply_rule :: "env \<Rightarrow> val \<Rightarrow> rule \<Rightarrow> err option" where
  "apply_rule E v r =
     (case as_WithValidator E v of
        Some vw \<Rightarrow> vw r
      | None \<Rightarrow> rule_Validate r v)"

text \<open>
  The loop over the rules: \<open>Some r\<close> when the loop returns \<open>r\<close> from \<^verbatim>\<open>Validate\<close>,
  \<open>None\<close> when it runs to its end.
\<close>

fun rules_loop :: "env \<Rightarrow> val \<Rightarrow> rule list \<Rightarrow> err option option" where
  "rules_loop E v [] = None"
| "rules_loop E v (r # rs) =
     (if active_skip r then Some None
      else case apply_rule E v r of
             Some e \<Rightarrow> Some (Some e)
           | None \<Rightarrow> rules_loop E v rs)"

text \<open>
  \<^verbatim>\<open>validateMap\<close> and \<^verbatim>\<open>validateSlice\<close>: the loops, with the \<^verbatim>\<open>Fields\<close> collected so
  far. The forced type assertion \<^verbatim>\<open>mv.(Validator)\<close> panics when it fails.
\<close>

fun validateMap_loop :: "env \<Rightarrow> (val \<times> val) list \<Rightarrow> fields \<Rightarrow> fields res" where
  "validateMap_loop E [] ers = Ret ers"
| "validateMap_loop E ((k, x) # kvs) ers =
     (let mv = iface_of x in
      if mv = VNil then validateMap_loop E kvs ers
      else case as_Validator E mv of
             None \<Rightarrow> Panic
           | Some None \<Rightarrow> validateMap_loop E kvs ers
           | Some (Some e) \<Rightarrow>
               validateMap_loop E kvs (AList.update (sprintV E (iface_of k)) (Some e) ers))"

fun validateSlice_loop :: "env \<Rightarrow> nat \<Rightarrow> val list \<Rightarrow> fields \<Rightarrow> fields res" where
  "validateSlice_loop E i [] ers = Ret ers"
| "validateSlice_loop E i (x # xs) ers =
     (let ev = iface_of x in
      if ev = VNil then validateSlice_loop E (Suc i) xs ers
      else case as_Validator E ev of
             None \<Rightarrow> Panic
           | Some None \<Rightarrow> validateSlice_loop E (Suc i) xs ers
           | Some (Some e) \<Rightarrow>
               validateSlice_loop E (Suc i) xs (AList.update (Itoa i) (Some e) ers))"

text \<open>\<^verbatim>\<open>if len(ers) > 0 { return ers }; return nil\<close>\<close>

definition fields_result :: "fields \<Rightarrow> err option" where
  "fields_result ers = (if length ers > 0 then Some (Fields ers) else None)"

definition validateMap :: "env \<Rightarrow> (val \<times> val) list \<Rightarrow> err option res" where
  "validateMap E kvs =
     (case validateMap_loop E kvs [] of
        Panic \<Rightarrow> Panic
      | Ret ers \<Rightarrow> Ret (fields_result ers))"

definition validateSlice :: "env \<Rightarrow> val list \<Rightarrow> err option res" where
  "validateSlice E xs =
     (case validateSlice_loop E 0 xs [] of
        Panic \<Rightarrow> Panic
      | Ret ers \<Rightarrow> Ret (fields_result ers))"

lemma kind_of_bare: "kind_of (bare v) = kind_of v"
  by (induction v rule: bare.induct) auto

lemma is_nil_bare: "is_nil (bare v) = is_nil v"
  by (induction v rule: bare.induct) auto

lemma bare_idem: "bare (bare v) = bare v"
  by (induction v rule: bare.induct) auto

lemma elem_val_bare: "elem_val (bare v) = elem_val v"
  by (simp add: elem_val_def bare_idem)

lemma size_bare_le: "size (bare v) \<le> size v"
  by (induction v rule: bare.induct) auto

lemma size_iface_of_le: "size (iface_of v) \<le> size v"
proof (cases "bare v")
  case (VIface t d)
  then have "size d < size (bare v)" by simp
  with VIface show ?thesis using size_bare_le [of v] by (simp add: iface_of_def)
qed (simp_all add: iface_of_def)

lemma size_elem_val_ptr: "bare v = VPtr t p \<Longrightarrow> \<not> is_nil v \<Longrightarrow> size (elem_val v) < size v"
proof -
  assume u: "bare v = VPtr t p" and n: "\<not> is_nil v"
  from n have "\<not> is_nil (bare v)" by (simp add: is_nil_bare)
  with u obtain a x where p: "p = Some (a, x)" by (cases p) auto
  with u have "elem_val v = x" by (simp add: elem_val_def)
  moreover from u p have "size x < size (bare v)" by simp
  ultimately show ?thesis using size_bare_le [of v] by simp
qed

lemma size_elem_val_iface: "bare v = VIface t d \<Longrightarrow> size (elem_val v) < size v"
proof -
  assume u: "bare v = VIface t d"
  then have "elem_val v = d" by (simp add: elem_val_def)
  moreover from u have "size d < size (bare v)" by simp
  ultimately show ?thesis using size_bare_le [of v] by simp
qed

text \<open>The elements of a slice or the entries of a map; a nil one has none.\<close>

definition items :: "'a list option \<Rightarrow> 'a list" where
  "items xs = (case xs of None \<Rightarrow> [] | Some ys \<Rightarrow> ys)"

text \<open>
  \<^verbatim>\<open>Validate(v any, rules ...Rule) error\<close>. The call on the element of a non-nil
  pointer passes no rules.
\<close>

function Validate :: "env \<Rightarrow> val \<Rightarrow> rule list \<Rightarrow> err option res" where
  "Validate E v rules =
     (case rules_loop E v rules of
        Some r \<Rightarrow> Ret r
      | None \<Rightarrow>
          if (kind_of v = KPointer \<or> kind_of v = KInterface) \<and> is_nil v then Ret None
          else (case as_Validator E v of
                 Some r \<Rightarrow> Ret r
               | None \<Rightarrow>
                   (case bare v of
                      VMap kt et m \<Rightarrow>
                        if implementsValidator E et then validateMap E (items m)
                        else Ret None
                    | VSlice et xs \<Rightarrow>
                        if implementsValidator E et then validateSlice E (items xs)
                        else Ret None
                    | VArray et xs \<Rightarrow>
                        if implementsValidator E et then validateSlice E xs
                        else Ret None
                    | VPtr t p \<Rightarrow> Validate E (iface_of (elem_val v)) []
                    | VIface t d \<Rightarrow> Validate E (iface_of (elem_val v)) []
                    | _ \<Rightarrow> Ret None)))"
  by pat_completeness auto
termination
proof (relation "measure (\<lambda>(E, v, rules). size v)", goal_cases)
  case 1
  show ?case by simp
next
  case (2 E v rules t p)
  then have "\<not> is_nil v"
    using kind_of_bare [of v] by auto
  with 2 have "size (elem_val v) < size v" by (intro size_elem_val_ptr) auto
  with size_iface_of_le [of "elem_val v"] show ?case by simp
next
  case (3 E v rules t d)
  then have "size (elem_val v) < size v" by (intro size_elem_val_iface) auto
  with size_iface_of_le [of "elem_val v"] show ?case by simp
qed

declare Validate.simps [simp del]


section \<open>Container iterator: Each\<close>





section \<open>Emptiness\<close>

text \<open>\<^verbatim>\<open>reflect.Value.Len\<close> for strings, arrays, slices and maps.\<close>

definition val_len :: "val \<Rightarrow> nat" where
  "val_len v =
     (case bare v of
        VString s \<Rightarrow> length s
      | VArray t xs \<Rightarrow> length xs
      | VSlice t xs \<Rightarrow> length (items xs)
      | VMap kt et m \<Rightarrow> length (items m)
      | _ \<Rightarrow> 0)"

text \<open>
  \<^verbatim>\<open>reflect.Value.IsZero\<close>, on the kinds that reach the default branch of \<^verbatim>\<open>IsEmpty\<close>.
\<close>

definition is_zero :: "val \<Rightarrow> bool" where
  "is_zero v =
     (case bare v of
        VBool b \<Rightarrow> \<not> b
      | VInt w i \<Rightarrow> i = 0
      | VUint w n \<Rightarrow> n = 0
      | VUintptr n \<Rightarrow> n = 0
      | VFloat32 b \<Rightarrow> b = 0
      | VFloat64 b \<Rightarrow> b = 0
      | VComplex64 r i \<Rightarrow> r = 0 \<and> i = 0
      | VComplex128 r i \<Rightarrow> r = 0 \<and> i = 0
      | _ \<Rightarrow> is_nil v)"

text \<open>\<^verbatim>\<open>val.Type().NumField()\<close> of a struct.\<close>

definition NumField :: "val \<Rightarrow> nat" where
  "NumField v = (case bare v of VStruct fs \<Rightarrow> length fs | _ \<Rightarrow> 0)"

text \<open>
  \<^verbatim>\<open>IsEmpty(v any) bool\<close>. The value that a \<^verbatim>\<open>driver.Valuer\<close> returns is arbitrary, so
  the recursion need not end; the first argument bounds the depth of the calls, and
  \<open>None\<close> says that the bound was reached.
\<close>

fun IsEmpty :: "nat \<Rightarrow> env \<Rightarrow> val \<Rightarrow> bool option" where
  "IsEmpty 0 E v = None"
| "IsEmpty (Suc n) E v =
     (if fst (IsNil v) then Some True
      else case (if v = VNil then None else isZeroer E v) of
             Some z \<Rightarrow> Some z
           | None \<Rightarrow>
               (case (if v = VNil then None else valuer E v) of
                  Some (Some vr) \<Rightarrow> IsEmpty n E vr
                | _ \<Rightarrow>
                    (let k = kind_of v in
                     if k = KString \<or> k = KArray \<or> k = KMap \<or> k = KSlice then Some (val_len v = 0)
                     else if k = KInterface \<or> k = KPointer then
                       (if is_nil v then Some True else IsEmpty n E (iface_of (elem_val v)))
                     else if k = KStruct then Some (NumField v = 0)
                     else Some (is_zero v))))"


section \<open>Record field resolver\<close>

definition ErrNotStructPtr :: err where
  "ErrNotStructPtr = XErr ''only a pointer to a struct can be validated'' ECInternal"

record FieldRules =
  fr_fieldPtr :: val
  fr_tag :: string
  fr_rules :: "rule list"

text \<open>\<^verbatim>\<open>reflect.StructTag.Get\<close>: the value of a key of the tag, empty when absent.\<close>

definition tag_Get :: "(string \<times> string) list \<Rightarrow> string \<Rightarrow> string" where
  "tag_Get tags k = (case map_of tags k of None \<Rightarrow> [] | Some x \<Rightarrow> x)"

text \<open>\<^verbatim>\<open>getErrorFieldName(fieldTag string, f *reflect.StructField) string\<close>.\<close>

definition getErrorFieldName :: "env \<Rightarrow> string \<Rightarrow> fld \<Rightarrow> string" where
  "getErrorFieldName E fieldTag f =
     (let ft = (if fieldTag = [] then errorTag E else fieldTag);
          tg = tag_Get (ftag f) ft;
          cps0 = takeWhile (\<lambda>c. c \<noteq> CHR '','') tg
      in if tg \<noteq> [] \<and> tg \<noteq> ''-'' \<and> cps0 \<noteq> [] then cps0 else fname f)"

lemma size_list_rev: "size_list f (rev xs) = size_list f xs"
  by (induction xs) (auto simp: size_list_append)

lemma size_elem_val_le: "size (elem_val v) \<le> size v"
proof (cases "bare v")
  case (VPtr t p)
  then show ?thesis
    using size_bare_le [of v] by (cases p) (auto simp: elem_val_def)
next
  case (VIface t d)
  then show ?thesis
    using size_bare_le [of v] by (auto simp: elem_val_def)
qed (auto simp: elem_val_def)

text \<open>
  The struct to dive into at an anonymous field: \<^verbatim>\<open>fi := s.Field(i)\<close>, replaced by
  \<^verbatim>\<open>fi.Elem()\<close> when the declared type is a pointer, if it is of kind Struct.
\<close>

definition embedded_fields :: "fld \<Rightarrow> fld list option" where
  "embedded_fields sf =
     (case bare (if type_kind (ftype sf) = KPointer then elem_val (fval sf) else fval sf) of
        VStruct fs \<Rightarrow> Some fs
      | _ \<Rightarrow> None)"

lemma size_embedded_fields:
  assumes "embedded_fields sf = Some fs"
  shows "size_list size fs < size sf"
proof -
  let ?fi = "if type_kind (ftype sf) = KPointer then elem_val (fval sf) else fval sf"
  from assms have "bare ?fi = VStruct fs"
    by (auto simp: embedded_fields_def split: val.splits)
  then have "size_list size fs < size (bare ?fi)" by simp
  also have "\<dots> \<le> size ?fi" by (rule size_bare_le)
  also have "\<dots> \<le> size (fval sf)" using size_elem_val_le [of "fval sf"] by simp
  also have "\<dots> < size sf" by (cases sf) simp
  finally show ?thesis .
qed

text \<open>
  The loop of \<^verbatim>\<open>findStructField(s, f reflect.Value) *reflect.StructField\<close> over the
  fields it still has to visit: \<open>ptr\<close> is \<^verbatim>\<open>f.Pointer()\<close>, \<open>et\<close> the type of
  \<^verbatim>\<open>f.Elem()\<close>, absent when \<open>f\<close> is nil, where asking for it panics.
\<close>

function find_loop :: "nat \<Rightarrow> gtype option \<Rightarrow> fld list \<Rightarrow> fld option res" where
  "find_loop ptr et [] = Ret None"
| "find_loop ptr et (sf # rest) =
     (if ptr = faddr sf \<and> et = None then Panic
      else if ptr = faddr sf \<and> et = Some (ftype sf) then Ret (Some sf)
      else if fanon sf then
        (case embedded_fields sf of
           Some fs \<Rightarrow>
             (case find_loop ptr et (rev fs) of
                Panic \<Rightarrow> Panic
              | Ret (Some r) \<Rightarrow> Ret (Some r)
              | Ret None \<Rightarrow> find_loop ptr et rest)
         | None \<Rightarrow> find_loop ptr et rest)
      else find_loop ptr et rest)"
  by pat_completeness auto
termination
  by (relation "measure (\<lambda>(ptr, et, fs). size_list size fs)")
     (auto simp: size_list_rev dest: size_embedded_fields)

declare find_loop.simps [simp del]

text \<open>
  \<^verbatim>\<open>f.Pointer()\<close> of a pointer, 0 for the nil pointer, and the type of \<^verbatim>\<open>f.Elem()\<close>,
  which a nil pointer does not have.
\<close>

definition Pointer :: "val \<Rightarrow> nat" where
  "Pointer f = (case bare f of VPtr t (Some (a, x)) \<Rightarrow> a | _ \<Rightarrow> 0)"

definition elem_type :: "val \<Rightarrow> gtype option" where
  "elem_type f = (case bare f of VPtr t (Some y) \<Rightarrow> Some t | _ \<Rightarrow> None)"

text \<open>
  \<^verbatim>\<open>findStructField\<close>, called with the fields of the struct and the binding's pointer.
  The loop runs from the last field to the first. \<^verbatim>\<open>Pointer\<close> panics on a value that
  has no address.
\<close>

definition findStructField :: "fld list \<Rightarrow> val \<Rightarrow> fld option res" where
  "findStructField s f =
     (if kind_of f = KPointer then find_loop (Pointer f) (elem_type f) (rev s) else Panic)"

text \<open>
  Modelled from the spec: \<^verbatim>\<open>xrr.Fields.Filter\<close> of the external error library, the
  filter that turns an aggregate without entries into nil: it drops the entries whose
  error is nil and gives nil when nothing is left.
\<close>

definition Filter :: "fields \<Rightarrow> err option" where
  "Filter ers =
     (let fs = filter (\<lambda>(k, e). e \<noteq> None) ers
      in if fs = [] then None else Some (Fields fs))"

text \<open>
  An error of a field on its way into \<open>ers\<close>: the entries of a \<^verbatim>\<open>Fielder\<close> error of an
  anonymous field are merged, any other error is stored under the field's name.
\<close>

definition store_field_error :: "env \<Rightarrow> FieldRules \<Rightarrow> fld \<Rightarrow> err \<Rightarrow> fields \<Rightarrow> fields" where
  "store_field_error E fr sf e ers =
     (case (fanon sf, e) of
        (True, Fields es) \<Rightarrow> fold (\<lambda>(name, x). AList.update name x) es ers
      | _ \<Rightarrow> AList.update (getErrorFieldName E (fr_tag fr) sf) (Some e) ers)"

text \<open>The loop of \<^verbatim>\<open>ValidateStruct\<close> over the bindings, \<open>s\<close> being the fields of the struct.\<close>

fun struct_loop :: "env \<Rightarrow> fld list \<Rightarrow> nat \<Rightarrow> FieldRules list \<Rightarrow> fields \<Rightarrow> err option res" where
  "struct_loop E s i [] ers = Ret (Filter ers)"
| "struct_loop E s i (fr # frs) ers =
     (if kind_of (fr_fieldPtr fr) \<noteq> KPointer then Ret (Some (ErrFieldPointer i))
      else case findStructField s (fr_fieldPtr fr) of
        Panic \<Rightarrow> Panic
      | Ret None \<Rightarrow> Ret (Some (ErrFieldNotFound i))
      | Ret (Some sf) \<Rightarrow>
          if is_nil (fr_fieldPtr fr) then Panic
          else (case Validate E (iface_of (elem_val (fr_fieldPtr fr))) (fr_rules fr) of
             Panic \<Rightarrow> Panic
           | Ret None \<Rightarrow> struct_loop E s (Suc i) frs ers
           | Ret (Some e) \<Rightarrow>
               if GetCode (fieldsCode E) (Some e) = ECInternal
               then Ret (Some (XErr (getErrorFieldName E (fr_tag fr) sf @ '': '' @ errorString E e)
                                    ECInternal))
               else struct_loop E s (Suc i) frs (store_field_error E fr sf e ers)))"

text \<open>\<^verbatim>\<open>ValidateStruct(v any, fields ...*FieldRules) error\<close>.\<close>

definition ValidateStruct :: "env \<Rightarrow> val \<Rightarrow> FieldRules list \<Rightarrow> err option res" where
  "ValidateStruct E v flds =
     (if kind_of v \<noteq> KPointer \<or> (\<not> is_nil v \<and> kind_of (elem_val v) \<noteq> KStruct)
      then Ret (Some ErrNotStructPtr)
      else if is_nil v then Ret None
      else case bare (elem_val v) of
             VStruct s \<Rightarrow> struct_loop E s 0 flds []
           | _ \<Rightarrow> Ret (Some ErrNotStructPtr))"


section \<open>Container iterator: Map\<close>

definition ErrNotMapPtr :: err where
  "ErrNotMapPtr = XErr ''only a map can be validated'' ECInternal"

definition ErrInvKeyType :: err where
  "ErrInvKeyType = XErr ''key not the correct type'' ECInternal"

definition ErrKeyMissing :: err where
  "ErrKeyMissing = XErr ''required key is missing'' ECMapKeyMissing"

definition ErrKeyUnexpected :: err where
  "ErrKeyUnexpected = XErr ''key not expected'' ECMapKeyUnexpected"

text \<open>
  Assignability of types as \<^verbatim>\<open>reflect.Type.AssignableTo\<close> of the standard library
  decides it, following the assignability rules of the language: identical types;
  identical underlying types when one of the two types has no name; a bidirectional
  channel into a channel type; a type into an interface type that it implements.
  Predeclared and defined types have a name, type literals have none.
\<close>

fun has_name :: "gtype \<Rightarrow> bool" where
  "has_name (TBase k) = True"
| "has_name (TNamed n u) = True"
| "has_name t = False"

fun underlying :: "gtype \<Rightarrow> gtype" where
  "underlying (TNamed n u) = underlying u"
| "underlying t = t"

text \<open>
  A bidirectional channel value goes into a channel type with the same element type
  when one of the two types has no name.
\<close>

definition specialChannelAssignability :: "gtype \<Rightarrow> gtype \<Rightarrow> bool" where
  "specialChannelAssignability T V =
     (case (underlying T, underlying V) of
        (TChan dT eT, TChan dV eV) \<Rightarrow>
          dV = BothDir \<and> (\<not> has_name T \<or> \<not> has_name V) \<and> eT = eV
      | _ \<Rightarrow> False)"

definition directlyAssignable :: "gtype \<Rightarrow> gtype \<Rightarrow> bool" where
  "directlyAssignable T V =
     (if T = V then True
      else if (has_name T \<and> has_name V) \<or> type_kind T \<noteq> type_kind V then False
      else if type_kind T = KChan \<and> specialChannelAssignability T V then True
      else underlying T = underlying V)"

definition implements :: "env \<Rightarrow> gtype \<Rightarrow> gtype \<Rightarrow> bool" where
  "implements E T V =
     (case underlying T of
        TInterface ms \<Rightarrow> list_all (hasMethod E V) ms
      | _ \<Rightarrow> False)"

text \<open>\<open>AssignableTo E t u\<close> is \<^verbatim>\<open>t.AssignableTo(u)\<close>: a value of type \<open>t\<close> is assignable to \<open>u\<close>.\<close>

definition AssignableTo :: "env \<Rightarrow> gtype \<Rightarrow> gtype \<Rightarrow> bool" where
  "AssignableTo E t u = (directlyAssignable u t \<or> implements E u t)"

record KeyRules =
  kr_key :: val
  kr_optional :: bool
  kr_rules :: "rule list"

text \<open>
  \<^verbatim>\<open>MapRule\<close>: the bindings of \<^verbatim>\<open>keys map[any]*KeyRules\<close>, in the order in which the
  run iterates over that map, and the flag.
\<close>

record MapRule =
  mr_keys :: "KeyRules list"
  allowUnknown :: bool

text \<open>\<^verbatim>\<open>getErrorKeyName(key any) string\<close>\<close>

definition getErrorKeyName :: "env \<Rightarrow> val \<Rightarrow> string" where
  "getErrorKeyName E k = sprintV E k"

text \<open>
  \<^verbatim>\<open>val.MapIndex(kv)\<close> on a map with key type \<open>kt\<close>: the library panics unless the
  type of the key is assignable to \<open>kt\<close>, converts the key to \<open>kt\<close> and looks it up;
  \<open>None\<close> is the invalid Value of an absent key.
\<close>

definition MapIndex :: "env \<Rightarrow> gtype \<Rightarrow> (val \<times> val) list \<Rightarrow> val \<Rightarrow> val option res" where
  "MapIndex E kt kvs k =
     (case typeOf k of
        None \<Rightarrow> Panic
      | Some t \<Rightarrow>
          if \<not> AssignableTo E t kt then Panic
          else Ret (map_option snd (find (\<lambda>(k', x). bare (iface_of k') = bare k) kvs)))"

text \<open>The error of one binding, the first statement of the loop body.\<close>

definition key_error :: "env \<Rightarrow> gtype \<Rightarrow> (val \<times> val) list \<Rightarrow> KeyRules \<Rightarrow> err option res" where
  "key_error E kt kvs kr =
     (case typeOf (kr_key kr) of
        None \<Rightarrow> Panic
      | Some t \<Rightarrow>
          if \<not> AssignableTo E kt t then Ret (Some ErrInvKeyType)
          else (case MapIndex E kt kvs (kr_key kr) of
                  Panic \<Rightarrow> Panic
                | Ret None \<Rightarrow> Ret (if \<not> kr_optional kr then Some ErrKeyMissing else None)
                | Ret (Some vv) \<Rightarrow> Validate E (iface_of vv) (kr_rules kr)))"

text \<open>The part of \<^verbatim>\<open>MapRule.Validate\<close> after the loop over the bindings.\<close>

definition map_finish :: "env \<Rightarrow> bool \<Rightarrow> fields \<Rightarrow> val list \<Rightarrow> err option" where
  "map_finish E au ers extraKeys =
     fields_result
       (if \<not> au
        then fold (\<lambda>k. AList.update (getErrorKeyName E k) (Some ErrKeyUnexpected)) extraKeys ers
        else ers)"

text \<open>The loop over the bindings, with \<open>ers\<close> and \<open>extraKeys\<close> as they stand.\<close>

fun map_loop ::
  "env \<Rightarrow> bool \<Rightarrow> gtype \<Rightarrow> (val \<times> val) list \<Rightarrow> KeyRules list \<Rightarrow> fields \<Rightarrow> val list \<Rightarrow> err option res"
where
  "map_loop E au kt kvs [] ers extraKeys = Ret (map_finish E au ers extraKeys)"
| "map_loop E au kt kvs (kr # krs) ers extraKeys =
     (case key_error E kt kvs kr of
        Panic \<Rightarrow> Panic
      | Ret None \<Rightarrow>
          map_loop E au kt kvs krs ers
            (if \<not> au then removeAll (kr_key kr) extraKeys else extraKeys)
      | Ret (Some e) \<Rightarrow>
          if GetCode (fieldsCode E) (Some e) = ECInternal
          then Ret (Some (XErr (getErrorKeyName E (kr_key kr) @ '': '' @ errorString E e) ECInternal))
          else map_loop E au kt kvs krs (AList.update (getErrorKeyName E (kr_key kr)) (Some e) ers)
                 (if \<not> au then removeAll (kr_key kr) extraKeys else extraKeys))"

text \<open>
  The first statements of \<^verbatim>\<open>MapRule.Validate\<close>:
  \<^verbatim>\<open>val := reflect.ValueOf(v); if val.Kind() == reflect.Ptr { val = val.Elem() }\<close>.
\<close>

definition map_value :: "val \<Rightarrow> val" where
  "map_value v = bare (if kind_of v = KPointer then elem_val v else v)"

text \<open>\<^verbatim>\<open>func (r MapRule) Validate(v any) error\<close>.\<close>

definition MapRule_Validate :: "env \<Rightarrow> MapRule \<Rightarrow> val \<Rightarrow> err option res" where
  "MapRule_Validate E r v =
     (case map_value v of
        VMap kt et m \<Rightarrow>
          (case m of
             None \<Rightarrow> Ret None
           | Some kvs \<Rightarrow>
               map_loop E (allowUnknown r) kt kvs (mr_keys r) []
                 (if \<not> allowUnknown r then remdups (map (\<lambda>(k, x). iface_of k) kvs) else []))
      | _ \<Rightarrow> Ret (Some ErrNotMapPtr))"


section \<open>Notions used in the statements\<close>

text \<open>
  The path segments of an iterable with the element that stands under each: the
  rendered key of each map entry, the decimal index of each element of a slice or an
  array; \<open>None\<close> for a value that is not iterable.
\<close>

definition each_paths :: "env \<Rightarrow> val \<Rightarrow> (string \<times> val) list option" where
  "each_paths E v =
     (case bare v of
        VMap kt et m \<Rightarrow> Some (map (\<lambda>(k, x). (mapErrKey E k, x)) (items m))
      | VSlice et xs \<Rightarrow> Some (zip (map Itoa [0..<length (items xs)]) (items xs))
      | VArray et xs \<Rightarrow> Some (zip (map Itoa [0..<length xs]) xs)
      | _ \<Rightarrow> None)"


text \<open>Some rules for the examples: \<^verbatim>\<open>NotNil\<close>, and three rules made with \<^verbatim>\<open>By\<close>.\<close>

definition ErrReqNotNil :: err where
  "ErrReqNotNil = XErr ''is required'' ''ECReqNotNil''"

definition NotNil :: rule where
  "NotNil = Rule (\<lambda>v. if fst (IsNil v) then Some ErrReqNotNil else None)"


definition ErrRule :: "string \<Rightarrow> rule" where
  "ErrRule msg = Rule (\<lambda>v. Some (XErr msg ECGeneric))"

definition InternalErrRule :: rule where
  "InternalErrRule = Rule (\<lambda>v. Some (XErr ''internal error'' ECInternal))"



text \<open>\<^verbatim>\<open>Field(fieldPtr any, rules ...Rule) *FieldRules\<close> and \<^verbatim>\<open>Key(key any, rules ...Rule) *KeyRules\<close>.\<close>

definition Field :: "val \<Rightarrow> rule list \<Rightarrow> FieldRules" where
  "Field p rs = \<lparr> fr_fieldPtr = p, fr_tag = [], fr_rules = rs \<rparr>"

definition Key :: "val \<Rightarrow> rule list \<Rightarrow> KeyRules" where
  "Key k rs = \<lparr> kr_key = k, kr_optional = False, kr_rules = rs \<rparr>"

text \<open>
  The declared fields that \<^verbatim>\<open>findStructField\<close> can return for a struct: its own
  fields and, through every anonymous field that is a struct or a non-nil pointer to
  one, the fields of that struct, recursively.
\<close>

function reachable :: "fld list \<Rightarrow> fld list" where
  "reachable [] = []"
| "reachable (sf # rest) =
     sf # (if fanon sf then (case embedded_fields sf of Some fs \<Rightarrow> reachable fs | None \<Rightarrow> [])
           else []) @ reachable rest"
  by pat_completeness auto
termination
  by (relation "measure (size_list size)") (auto dest: size_embedded_fields)

declare reachable.simps [simp del]


text \<open>
  A binding's pointer corresponds to a declared field when a reachable field has the
  pointer's address and the pointer's element type. The nil pointer has address 0 and
  no element type; it corresponds to a field only if one is at address 0.
\<close>

definition corresponds :: "fld list \<Rightarrow> val \<Rightarrow> bool" where
  "corresponds s f =
     list_ex (\<lambda>sf. faddr sf = Pointer f \<and> (elem_type f = None \<or> elem_type f = Some (ftype sf)))
       (reachable s)"

text \<open>
  A binding after which the loop of \<^verbatim>\<open>ValidateStruct\<close> goes on: a non-nil pointer to a
  declared field whose validation returns without an internal error. The binding
  passes when that validation returns nil.
\<close>

definition binding_continues :: "env \<Rightarrow> fld list \<Rightarrow> FieldRules \<Rightarrow> bool" where
  "binding_continues E s fr =
     (kind_of (fr_fieldPtr fr) = KPointer \<and> \<not> is_nil (fr_fieldPtr fr) \<and>
      (case findStructField s (fr_fieldPtr fr) of
         Ret (Some sf) \<Rightarrow>
           (case Validate E (iface_of (elem_val (fr_fieldPtr fr))) (fr_rules fr) of
              Ret r \<Rightarrow> GetCode (fieldsCode E) r \<noteq> ECInternal
            | Panic \<Rightarrow> False)
       | _ \<Rightarrow> False))"


text \<open>The reference-like kinds: pointer, slice, map, channel, function, interface.\<close>

definition ref_kind :: "kind \<Rightarrow> bool" where
  "ref_kind k =
     (k = KPointer \<or> k = KSlice \<or> k = KMap \<or> k = KChan \<or> k = KFunc \<or> k = KInterface)"

text \<open>
  Example data: a struct with two fields, the first tagged \<^verbatim>\<open>json:"f_json"\<close>, a pointer to
  it, pointers to its fields, and a map with one entry.
\<close>

definition demo_fields :: "fld list" where
  "demo_fields =
     [Fld ''FStr'' (TBase KString) [(''json'', ''f_json'')] False 4096 (VString ''FStr''),
      Fld ''Count'' (TBase KInt) [] False 4112 (VInt W0 0)]"

definition demo_type :: gtype where
  "demo_type = TNamed ''TStruct'' (TStruct [(''FStr'', TBase KString), (''Count'', TBase KInt)])"

definition demo_struct :: val where
  "demo_struct = VPtr demo_type (Some (4096, VNamed ''TStruct'' (VStruct demo_fields)))"

definition field_FStr :: val where
  "field_FStr = VPtr (TBase KString) (Some (4096, VString ''FStr''))"

definition field_Count :: val where
  "field_Count = VPtr (TBase KInt) (Some (4112, VInt W0 0))"


text \<open>The number that a decimal numeral denotes, to read back what \<open>FormatUint\<close> writes.\<close>

definition decimal :: "string \<Rightarrow> nat" where
  "decimal s = foldl (\<lambda>a c. 10 * a + (of_char c - 48)) 0 s"

section \<open>A program without methods\<close>

text \<open>
  The environment of a program whose types declare no methods; it formats strings and
  integers as \<^verbatim>\<open>fmt\<close> does and uses the default tag \<^verbatim>\<open>json\<close>. The examples below
  run in it.
\<close>

definition env0 :: env where
  "env0 =
     \<lparr> withValidator = (\<lambda>v. None), validator = (\<lambda>v. None),
       implementsValidator = (\<lambda>t. False), isZeroer = (\<lambda>v. None), valuer = (\<lambda>v. None),
       hasMethod = (\<lambda>t m. False),
       sprintV = (\<lambda>v. case v of VString s \<Rightarrow> s | VInt w i \<Rightarrow> FormatInt i
                              | VUint w n \<Rightarrow> FormatUint n | _ \<Rightarrow> []),
       typeString = (\<lambda>t. []), fieldsError = (\<lambda>fs. []), fieldsCode = ''ECFields'',
       errorTag = ''json'' \<rparr>"

section \<open>Properties of the dispatcher\<close>






section \<open>Properties of the value classifier\<close>

lemma ref_kind_range:
  "ref_kind k \<longleftrightarrow> kind_num KChan \<le> kind_num k \<and> kind_num k \<le> kind_num KSlice"
  by (cases k) (simp_all add: ref_kind_def)

text \<open>
  C3, as stated: \<^verbatim>\<open>isNil\<close> is true exactly for the nil interface. A nil pointer of type
  \<^verbatim>\<open>*int\<close> is not the nil interface, and \<^verbatim>\<open>IsNil\<close> answers \<^verbatim>\<open>isNil = true\<close> for it.
\<close>

theorem IsNil_wrapped_nil_counterexample:
  "\<not> (fst (IsNil (VPtr (TBase KInt) None)) \<longleftrightarrow> VPtr (TBase KInt) None = VNil)"
  by (simp add: IsNil_def)

text \<open>
  C3, amended: \<^verbatim>\<open>isNil\<close> is true exactly when the value is the nil interface or a nil
  instance of a reference-like kind. The nil interface gives \<open>(true, false)\<close>, a nil
  instance of a reference-like kind gives \<open>(true, true)\<close>, and a value of any other kind
  gives \<open>(false, false)\<close>.
\<close>

theorem IsNil_classifies:
  "(fst (IsNil v) \<longleftrightarrow> v = VNil \<or> (ref_kind (kind_of v) \<and> is_nil v)) \<and>
   (v = VNil \<longrightarrow> IsNil v = (True, False)) \<and>
   (ref_kind (kind_of v) \<and> is_nil v \<longrightarrow> IsNil v = (True, True)) \<and>
   (v \<noteq> VNil \<and> \<not> ref_kind (kind_of v) \<longrightarrow> IsNil v = (False, False))"
  by (auto simp: IsNil_def Let_def ref_kind_range)

theorem IsNil_classifies_witness:
  "IsNil VNil = (True, False) \<and>
   IsNil (VPtr (TBase KInt) None) = (True, True) \<and>
   IsNil (VSlice (TBase KUint8) None) = (True, True) \<and>
   IsNil (VInt W0 123) = (False, False)"
  using IsNil_classifies [of VNil] IsNil_classifies [of "VPtr (TBase KInt) None"]
    IsNil_classifies [of "VSlice (TBase KUint8) None"] IsNil_classifies [of "VInt W0 123"]
  by (simp add: ref_kind_def)

text \<open>
  C8: a struct value without the \<^verbatim>\<open>IsZero\<close> and the \<^verbatim>\<open>driver.Valuer\<close> capability is
  empty exactly when its type declares no field; the values of the fields play no part.
  Any positive bound on the depth of the calls gives the answer.
\<close>

theorem IsEmpty_struct:
  assumes "bare v = VStruct fs" and "isZeroer E v = None" and "valuer E v = None"
  shows "IsEmpty (Suc n) E v = Some (fs = [])"
proof -
  from assms(1) have k: "kind_of v = KStruct"
    using kind_of_bare [of v] by simp
  from assms(1) have nn: "v \<noteq> VNil" by auto
  from k have "IsNil v = (False, False)" using nn by (simp add: IsNil_def)
  with k nn assms show ?thesis by (simp add: NumField_def)
qed

theorem IsEmpty_struct_witness:
  "IsEmpty (Suc 0) env0
     (VNamed ''T'' (VStruct [Fld ''A'' (TBase KInt) [] False 16 (VInt W0 0),
                             Fld ''B'' (TBase KString) [] False 24 (VString [])]))
   = Some False"
  using IsEmpty_struct [of "VNamed ''T'' (VStruct [Fld ''A'' (TBase KInt) [] False 16 (VInt W0 0),
                             Fld ''B'' (TBase KString) [] False 24 (VString [])])"
      "[Fld ''A'' (TBase KInt) [] False 16 (VInt W0 0),
        Fld ''B'' (TBase KString) [] False 24 (VString [])]" env0 0]
  by (simp add: env0_def)

section \<open>Properties of the customization helper\<close>

text \<open>
  C9: \<^verbatim>\<open>setCode\<close> gives nil for nil and the error itself for the empty code; an error
  that already carries the code is returned unchanged, any other error is wrapped with
  the code; setting the same code twice is setting it once.
\<close>

theorem setCode_contract:
  "setCode fc None c = None \<and>
   setCode fc e [] = e \<and>
   (GetCode fc (Some x) = c \<longrightarrow> setCode fc (Some x) c = Some x) \<and>
   (c \<noteq> [] \<and> GetCode fc (Some x) \<noteq> c \<longrightarrow> setCode fc (Some x) c = Some (Wrapped x c)) \<and>
   setCode fc (setCode fc e c) c = setCode fc e c"
  by (auto simp: setCode_def split: option.splits)

theorem setCode_contract_witness:
  "setCode ''ECFields'' (Some (XErr ''error'' ''ECode'')) ''ECode''
     = Some (XErr ''error'' ''ECode'') \<and>
   setCode ''ECFields'' (Some (Foreign ''error'')) ''ECode''
     = Some (Wrapped (Foreign ''error'') ''ECode'')"
  using setCode_contract [of "''ECFields''" "''ECode''" None "XErr ''error'' ''ECode''"]
    setCode_contract [of "''ECFields''" "''ECode''" None "Foreign ''error''"]
  by (simp add: ECGeneric_def)

section \<open>Properties of Each\<close>














lemma isize_int_kinds [simp]:
  "isize_int w \<noteq> KMap" "isize_int w \<noteq> KSlice" "isize_int w \<noteq> KArray"
  "isize_int w \<noteq> KPointer" "isize_int w \<noteq> KInterface" "isize_int w \<noteq> KStruct"
  by (cases w; simp)+

lemma isize_uint_kinds [simp]:
  "isize_uint w \<noteq> KMap" "isize_uint w \<noteq> KSlice" "isize_uint w \<noteq> KArray"
  "isize_uint w \<noteq> KPointer" "isize_uint w \<noteq> KInterface" "isize_uint w \<noteq> KStruct"
  by (cases w; simp)+

lemma bare_not_named [simp]: "bare v \<noteq> VNamed n x"
  by (induction v rule: bare.induct) auto

lemma each_paths_None:
  "each_paths E v = None \<longleftrightarrow> kind_of v \<noteq> KMap \<and> kind_of v \<noteq> KSlice \<and> kind_of v \<noteq> KArray"
proof -
  have "kind_of v = kind_of (bare v)" by (simp add: kind_of_bare)
  then show ?thesis
    by (cases "bare v") (auto simp: each_paths_def)
qed



text \<open>The decimal indices of a slice or an array are pairwise different.\<close>

lemma of_char_digit: "d < 10 \<Longrightarrow> of_char (digit d) = 48 + d"
  by (simp add: digit_def)

lemma decimal_FormatUint: "decimal (FormatUint n) = n"
proof (induction n rule: FormatUint.induct)
  case (1 n)
  show ?case
  proof (cases "n < 10")
    case True
    then show ?thesis
      by (subst FormatUint.simps) (simp add: decimal_def of_char_digit)
  next
    case False
    have "decimal (FormatUint n) = 10 * decimal (FormatUint (n div 10)) + (of_char (digit (n mod 10)) - 48)"
      using False by (subst FormatUint.simps) (simp add: decimal_def)
    also have "\<dots> = 10 * (n div 10) + n mod 10"
      using "1.IH" [OF False] by (simp add: of_char_digit)
    finally show ?thesis by simp
  qed
qed

lemma inj_Itoa: "inj Itoa"
proof (rule injI)
  fix a b :: nat
  assume "Itoa a = Itoa b"
  then have "FormatUint a = FormatUint b" by (simp add: Itoa_def FormatInt_def)
  then have "decimal (FormatUint a) = decimal (FormatUint b)" by simp
  then show "a = b" by (simp add: decimal_FormatUint)
qed

lemma each_paths_index_distinct:
  assumes "each_paths E v = Some ps" and "kind_of v = KSlice \<or> kind_of v = KArray"
  shows "distinct (map fst ps)"
proof -
  have d: "distinct (map Itoa [0..<n])" for n
    using inj_Itoa by (simp add: distinct_map inj_on_def)
  from assms(2) have "kind_of (bare v) = KSlice \<or> kind_of (bare v) = KArray"
    by (simp add: kind_of_bare)
  with assms(1) show ?thesis
    by (cases "bare v") (auto simp: each_paths_def d)
qed







section \<open>Evaluation in the program without methods\<close>

lemma env0_simps:
  "as_WithValidator env0 v = None" "as_Validator env0 v = None"
  "fieldsCode env0 = ''ECFields''" "errorTag env0 = ''json''"
  "implementsValidator env0 t = False"
  by (simp_all add: as_WithValidator_def as_Validator_def env0_def)

lemma Validate_env0_rules:
  "kind_of v \<noteq> KPointer \<Longrightarrow> kind_of v \<noteq> KInterface \<Longrightarrow> kind_of v \<noteq> KMap \<Longrightarrow>
   kind_of v \<noteq> KSlice \<Longrightarrow> kind_of v \<noteq> KArray \<Longrightarrow>
   Validate env0 v rs = (case rules_loop env0 v rs of Some r \<Rightarrow> Ret r | None \<Rightarrow> Ret None)"
proof -
  assume a: "kind_of v \<noteq> KPointer" "kind_of v \<noteq> KInterface" "kind_of v \<noteq> KMap"
    "kind_of v \<noteq> KSlice" "kind_of v \<noteq> KArray"
  have v: "as_Validator env0 v = None" by (rule env0_simps)
  from a have "kind_of (bare v) \<noteq> KPointer" "kind_of (bare v) \<noteq> KInterface"
    "kind_of (bare v) \<noteq> KMap" "kind_of (bare v) \<noteq> KSlice" "kind_of (bare v) \<noteq> KArray"
    by (simp_all add: kind_of_bare)
  then have "(case bare v of
        VMap kt et m \<Rightarrow> if implementsValidator env0 et then validateMap env0 (items m) else Ret None
      | VSlice et xs \<Rightarrow> if implementsValidator env0 et then validateSlice env0 (items xs) else Ret None
      | VArray et xs \<Rightarrow> if implementsValidator env0 et then validateSlice env0 xs else Ret None
      | VPtr t p \<Rightarrow> Validate env0 (iface_of (elem_val v)) []
      | VIface t d \<Rightarrow> Validate env0 (iface_of (elem_val v)) []
      | _ \<Rightarrow> Ret None) = Ret None"
    by (cases "bare v") simp_all
  with a v show ?thesis
    by (subst Validate.simps) (simp split: option.splits)
qed

lemma demo_validate_FStr_NotNil: "Validate env0 (VString ''FStr'') [NotNil] = Ret None"
  by (simp add: Validate_env0_rules NotNil_def apply_rule_def env0_simps IsNil_def)

lemma demo_validate_Count_ErrRule:
  "Validate env0 (VInt W0 0) [ErrRule ''bad''] = Ret (Some (XErr ''bad'' ECGeneric))"
  by (simp add: Validate_env0_rules ErrRule_def apply_rule_def env0_simps)

lemma demo_validate_FStr_Internal:
  "Validate env0 (VString ''FStr'') [InternalErrRule]
     = Ret (Some (XErr ''internal error'' ECInternal))"
  by (simp add: Validate_env0_rules InternalErrRule_def apply_rule_def env0_simps)

section \<open>Properties of the record field resolver\<close>

lemma struct_loop_continues:
  "\<forall>fr\<in>set pre. binding_continues E s fr \<Longrightarrow>
   \<exists>ers'. struct_loop E s i (pre @ rest) ers = struct_loop E s (i + length pre) rest ers'"
proof (induction pre arbitrary: i ers)
  case Nil
  show ?case by auto
next
  case (Cons fr pre)
  from Cons.prems have c: "binding_continues E s fr" and rest: "\<forall>fr\<in>set pre. binding_continues E s fr"
    by simp_all
  from c obtain sf r where
    k: "kind_of (fr_fieldPtr fr) = KPointer" and n: "\<not> is_nil (fr_fieldPtr fr)" and
    f: "findStructField s (fr_fieldPtr fr) = Ret (Some sf)" and
    v: "Validate E (iface_of (elem_val (fr_fieldPtr fr))) (fr_rules fr) = Ret r" and
    g: "GetCode (fieldsCode E) r \<noteq> ECInternal"
    by (auto simp: binding_continues_def split: res.splits option.splits)
  show ?case
  proof (cases r)
    case None
    with k n f v have "struct_loop E s i ((fr # pre) @ rest) ers = struct_loop E s (Suc i) (pre @ rest) ers"
      by simp
    with Cons.IH [OF rest, of "Suc i" ers] show ?thesis by simp
  next
    case (Some e)
    with k n f v g have "struct_loop E s i ((fr # pre) @ rest) ers =
        struct_loop E s (Suc i) (pre @ rest) (store_field_error E fr sf e ers)"
      by simp
    with Cons.IH [OF rest, of "Suc i" "store_field_error E fr sf e ers"] show ?thesis by simp
  qed
qed

lemma set_reachable_Cons:
  "set (reachable (sf # rest)) =
     insert sf ((if fanon sf then (case embedded_fields sf of Some fs \<Rightarrow> set (reachable fs) | None \<Rightarrow> {})
                 else {}) \<union> set (reachable rest))"
  apply (subst reachable.simps(2))
  apply (cases "fanon sf")
   apply (cases "embedded_fields sf")
    apply simp
   apply simp
  apply simp
  done

lemma set_reachable_append: "set (reachable (xs @ ys)) = set (reachable xs) \<union> set (reachable ys)"
proof (induct xs)
  case Nil
  show ?case by (simp add: reachable.simps(1))
next
  case (Cons a xs)
  have "set (reachable ((a # xs) @ ys)) = set (reachable (a # (xs @ ys)))" by simp
  also have "\<dots> = set (reachable (a # xs)) \<union> set (reachable ys)"
    unfolding set_reachable_Cons Cons by auto
  finally show ?case .
qed

lemma set_reachable_rev: "set (reachable (rev xs)) = set (reachable xs)"
proof (induct xs)
  case Nil
  show ?case by simp
next
  case (Cons a xs)
  have "set (reachable (rev (a # xs))) = set (reachable (rev xs)) \<union> set (reachable [a])"
    by (simp add: set_reachable_append)
  also have "\<dots> = set (reachable xs) \<union> set (reachable [a])" using Cons by simp
  also have "\<dots> = set (reachable ([a] @ xs))" unfolding set_reachable_append by auto
  finally show ?case by simp
qed

lemma find_loop_none:
  "\<forall>sf\<in>set (reachable vs). \<not> (faddr sf = ptr \<and> (et = None \<or> et = Some (ftype sf))) \<Longrightarrow>
   find_loop ptr et vs = Ret None"
proof (induction ptr et vs rule: find_loop.induct)
  case (1 ptr et)
  show ?case by (simp add: find_loop.simps)
next
  case (2 ptr et sf rest)
  let ?P = "\<lambda>x. \<not> (faddr x = ptr \<and> (et = None \<or> et = Some (ftype x)))"
  have sub: "sf \<in> set (reachable (sf # rest))" "set (reachable rest) \<subseteq> set (reachable (sf # rest))"
    unfolding set_reachable_Cons by auto
  from "2.prems" sub have nohit: "?P sf" by blast
  from "2.prems" sub have rest: "\<forall>x\<in>set (reachable rest). ?P x" by blast
  have c1: "\<not> (ptr = faddr sf \<and> et = None)" and c2: "\<not> (ptr = faddr sf \<and> et = Some (ftype sf))"
    using nohit by auto
  show ?case
  proof (cases "fanon sf")
    case False
    with c1 c2 "2.IH"(4) [OF c1 c2 False rest] show ?thesis
      by (simp add: find_loop.simps)
  next
    case True
    show ?thesis
    proof (cases "embedded_fields sf")
      case None
      with True c1 c2 "2.IH"(1) [OF c1 c2 True None rest] show ?thesis
        by (simp add: find_loop.simps)
    next
      case (Some fs)
      have "set (reachable fs) \<subseteq> set (reachable (sf # rest))"
        unfolding set_reachable_Cons using True Some by auto
      with "2.prems" have "\<forall>x\<in>set (reachable fs). ?P x" by blast
      then have "\<forall>x\<in>set (reachable (rev fs)). ?P x"
        by (simp only: set_reachable_rev)
      from "2.IH"(2) [OF c1 c2 True Some this]
      have inner: "find_loop ptr et (rev fs) = Ret None" .
      from "2.IH"(3) [OF c1 c2 True Some inner refl rest]
      have "find_loop ptr et rest = Ret None" .
      with True Some c1 c2 inner show ?thesis
        by (simp add: find_loop.simps)
    qed
  qed
qed

lemma findStructField_none:
  "kind_of f = KPointer \<Longrightarrow> \<not> corresponds s f \<Longrightarrow> findStructField s f = Ret None"
  unfolding findStructField_def corresponds_def list_ex_iff
  by (simp add: find_loop_none set_reachable_rev)


lemma ValidateStruct_struct:
  assumes "kind_of p = KPointer" "\<not> is_nil p" "bare (elem_val p) = VStruct s"
  shows "ValidateStruct E p frs = struct_loop E s 0 frs []"
proof -
  from assms(3) have "kind_of (elem_val p) = KStruct"
    using kind_of_bare [of "elem_val p"] by simp
  with assms show ?thesis by (simp add: ValidateStruct_def)
qed

lemma demo_find_FStr:
  "findStructField demo_fields field_FStr = Ret (Some (hd demo_fields))"
  by (simp add: findStructField_def field_FStr_def demo_fields_def Pointer_def elem_type_def
      find_loop.simps)

lemma demo_find_Count:
  "findStructField demo_fields field_Count = Ret (Some (hd (tl demo_fields)))"
  by (simp add: findStructField_def field_Count_def demo_fields_def Pointer_def elem_type_def
      find_loop.simps)

lemma demo_not_corresponds: "\<not> corresponds demo_fields demo_struct"
  by (simp add: demo_struct_def demo_fields_def demo_type_def corresponds_def reachable.simps
      Pointer_def elem_type_def)

text \<open>
  C4, as stated: whenever a binding's pointer corresponds to no declared field, the
  result is the field-not-found error. Here the second binding is a pointer to the
  struct itself, which is no field of it, and the first binding is not a pointer: the
  loop returns the field-not-pointer error of the first binding and never looks at the
  second.
\<close>

theorem ValidateStruct_field_not_found_counterexample:
  "kind_of demo_struct = KPointer \<and> \<not> corresponds demo_fields demo_struct \<and>
   ValidateStruct env0 demo_struct [Field (VString ''FStr'') [], Field demo_struct []]
     = Ret (Some (ErrFieldPointer 0))"
  by (simp add: demo_struct_def demo_fields_def demo_type_def corresponds_def reachable.simps
      Pointer_def elem_type_def ValidateStruct_def elem_val_def Field_def)

text \<open>
  C4, amended: let \<open>p\<close> be a non-nil pointer to a struct. If a binding supplies a pointer
  that corresponds to no declared field of the struct, and every binding before it is a
  non-nil pointer to a declared field whose validation returns without an internal
  error, \<^verbatim>\<open>ValidateStruct\<close> returns the field-not-found error with the index of that
  binding, whose code is \<^verbatim>\<open>ECInternal\<close>, as its whole result, whatever the earlier
  bindings stored and whatever follows.
\<close>

theorem ValidateStruct_field_not_found:
  assumes "kind_of p = KPointer" and "\<not> is_nil p" and "bare (elem_val p) = VStruct s"
    and "\<forall>b\<in>set pre. binding_continues E s b"
    and "kind_of (fr_fieldPtr fr) = KPointer" and "\<not> corresponds s (fr_fieldPtr fr)"
  shows "ValidateStruct E p (pre @ fr # post) = Ret (Some (ErrFieldNotFound (length pre))) \<and>
         GetCode (fieldsCode E) (Some (ErrFieldNotFound (length pre))) = ECInternal"
proof -
  from assms(4) obtain ers' where
    "struct_loop E s 0 (pre @ fr # post) [] = struct_loop E s (0 + length pre) (fr # post) ers'"
    using struct_loop_continues [of pre E s 0 "fr # post" "[]"] by blast
  moreover have "findStructField s (fr_fieldPtr fr) = Ret None"
    using assms(5,6) by (rule findStructField_none)
  ultimately have "struct_loop E s 0 (pre @ fr # post) [] = Ret (Some (ErrFieldNotFound (length pre)))"
    using assms(5) by simp
  with ValidateStruct_struct [OF assms(1-3)] show ?thesis by simp
qed

theorem ValidateStruct_field_not_found_witness:
  "ValidateStruct env0 demo_struct [Field field_FStr [NotNil], Field demo_struct []]
     = Ret (Some (ErrFieldNotFound 1))"
proof -
  have e: "iface_of (elem_val field_FStr) = VString ''FStr''"
    by (simp add: field_FStr_def elem_val_def iface_of_def)
  have k: "kind_of field_FStr = KPointer" "\<not> is_nil field_FStr"
    by (simp_all add: field_FStr_def)
  have c: "\<forall>b\<in>set [Field field_FStr [NotNil]]. binding_continues env0 demo_fields b"
    by (simp add: binding_continues_def Field_def demo_find_FStr e k demo_validate_FStr_NotNil
        ECInternal_def)
  have p: "kind_of demo_struct = KPointer" "\<not> is_nil demo_struct"
    "bare (elem_val demo_struct) = VStruct demo_fields"
    by (simp_all add: demo_struct_def elem_val_def)
  have f: "kind_of (fr_fieldPtr (Field demo_struct [])) = KPointer"
    "\<not> corresponds demo_fields (fr_fieldPtr (Field demo_struct []))"
    by (simp_all add: Field_def p demo_not_corresponds)
  from ValidateStruct_field_not_found [OF p c f, of "[]"] show ?thesis by simp
qed


text \<open>
  C5: when the loop of \<^verbatim>\<open>ValidateStruct\<close> reaches a binding (every binding before it let
  the loop go on) and the validation of its field returns an error with code
  \<^verbatim>\<open>ECInternal\<close>, the result is one new error with code \<^verbatim>\<open>ECInternal\<close> whose message is the
  resolved name of the field, a colon and a blank, and the text of that error. The
  errors stored for earlier bindings are not part of it, and later bindings are not
  looked at.
\<close>

theorem ValidateStruct_internal_error:
  assumes "kind_of p = KPointer" and "\<not> is_nil p" and "bare (elem_val p) = VStruct s"
    and "\<forall>b\<in>set pre. binding_continues E s b"
    and "kind_of (fr_fieldPtr fr) = KPointer" and "\<not> is_nil (fr_fieldPtr fr)"
    and "findStructField s (fr_fieldPtr fr) = Ret (Some sf)"
    and "Validate E (iface_of (elem_val (fr_fieldPtr fr))) (fr_rules fr) = Ret (Some e)"
    and "GetCode (fieldsCode E) (Some e) = ECInternal"
  shows "ValidateStruct E p (pre @ fr # post) =
         Ret (Some (XErr (getErrorFieldName E (fr_tag fr) sf @ '': '' @ errorString E e) ECInternal))"
proof -
  from assms(4) obtain ers' where
    "struct_loop E s 0 (pre @ fr # post) [] = struct_loop E s (0 + length pre) (fr # post) ers'"
    using struct_loop_continues [of pre E s 0 "fr # post" "[]"] by blast
  then have "struct_loop E s 0 (pre @ fr # post) [] =
      Ret (Some (XErr (getErrorFieldName E (fr_tag fr) sf @ '': '' @ errorString E e) ECInternal))"
    using assms(5-9) by simp
  with ValidateStruct_struct [OF assms(1-3)] show ?thesis by simp
qed


theorem ValidateStruct_internal_error_witness:
  "ValidateStruct env0 demo_struct
     [Field field_Count [ErrRule ''bad''], Field field_FStr [InternalErrRule], Field demo_struct []]
   = Ret (Some (XErr ''f_json: internal error'' ECInternal))"
proof -
  have e: "iface_of (elem_val field_FStr) = VString ''FStr''"
    "iface_of (elem_val field_Count) = VInt W0 0"
    by (simp_all add: field_FStr_def field_Count_def elem_val_def iface_of_def)
  have k: "kind_of field_FStr = KPointer" "\<not> is_nil field_FStr"
    "kind_of field_Count = KPointer" "\<not> is_nil field_Count"
    by (simp_all add: field_FStr_def field_Count_def)
  have c: "\<forall>b\<in>set [Field field_Count [ErrRule ''bad'']]. binding_continues env0 demo_fields b"
    by (simp add: binding_continues_def Field_def demo_find_Count e k demo_validate_Count_ErrRule
        ECInternal_def ECGeneric_def)
  have p: "kind_of demo_struct = KPointer" "\<not> is_nil demo_struct"
    "bare (elem_val demo_struct) = VStruct demo_fields"
    by (simp_all add: demo_struct_def elem_val_def)
  have f: "kind_of (fr_fieldPtr (Field field_FStr [InternalErrRule])) = KPointer"
    "\<not> is_nil (fr_fieldPtr (Field field_FStr [InternalErrRule]))"
    "findStructField demo_fields (fr_fieldPtr (Field field_FStr [InternalErrRule]))
       = Ret (Some (hd demo_fields))"
    "Validate env0 (iface_of (elem_val (fr_fieldPtr (Field field_FStr [InternalErrRule]))))
       (fr_rules (Field field_FStr [InternalErrRule])) = Ret (Some (XErr ''internal error'' ECInternal))"
    "GetCode (fieldsCode env0) (Some (XErr ''internal error'' ECInternal)) = ECInternal"
    by (simp_all add: Field_def k e demo_find_FStr demo_validate_FStr_Internal)
  from ValidateStruct_internal_error [OF p c f, of "[Field demo_struct []]"]
  show ?thesis
    by (simp add: getErrorFieldName_def Field_def demo_fields_def tag_Get_def env0_simps)
qed

section \<open>Properties of the Map rule\<close>

text \<open>
  C10: for a nil map, and for a pointer to a nil map, \<^verbatim>\<open>MapRule.Validate\<close> returns nil
  whatever the bindings and the flag are.
\<close>

theorem MapRule_nil_map:
  "(bare v = VMap kt et None \<longrightarrow> MapRule_Validate E r v = Ret None) \<and>
   (bare v = VPtr t (Some (a, m)) \<and> bare m = VMap kt et None
      \<longrightarrow> MapRule_Validate E r v = Ret None)"
proof (intro conjI impI)
  assume h: "bare v = VMap kt et None"
  then have "kind_of v = KMap" using kind_of_bare [of v] by simp
  with h show "MapRule_Validate E r v = Ret None"
    by (simp add: MapRule_Validate_def map_value_def)
next
  assume h: "bare v = VPtr t (Some (a, m)) \<and> bare m = VMap kt et None"
  then have "kind_of v = KPointer" using kind_of_bare [of v] by simp
  moreover from h have "elem_val v = m" by (simp add: elem_val_def)
  ultimately show "MapRule_Validate E r v = Ret None"
    using h by (simp add: MapRule_Validate_def map_value_def)
qed

theorem MapRule_nil_map_witness:
  "MapRule_Validate env0
     \<lparr> mr_keys = [\<lparr> kr_key = VString ''name'', kr_optional = False, kr_rules = [] \<rparr>],
       allowUnknown = False \<rparr>
     (VMap (TBase KString) (TInterface []) None) = Ret None \<and>
   MapRule_Validate env0
     \<lparr> mr_keys = [\<lparr> kr_key = VString ''name'', kr_optional = False, kr_rules = [] \<rparr>],
       allowUnknown = False \<rparr>
     (VPtr (TMap (TBase KString) (TInterface [])) (Some (64, VMap (TBase KString) (TInterface []) None)))
     = Ret None"
  using MapRule_nil_map [of "VMap (TBase KString) (TInterface []) None" "TBase KString" "TInterface []"
      env0 "\<lparr> mr_keys = [\<lparr> kr_key = VString ''name'', kr_optional = False, kr_rules = [] \<rparr>],
       allowUnknown = False \<rparr>"]
    MapRule_nil_map [of "VPtr (TMap (TBase KString) (TInterface [])) (Some (64, VMap (TBase KString) (TInterface []) None))"
      "TBase KString" "TInterface []" env0
      "\<lparr> mr_keys = [\<lparr> kr_key = VString ''name'', kr_optional = False, kr_rules = [] \<rparr>],
       allowUnknown = False \<rparr>" "TMap (TBase KString) (TInterface [])" 64
      "VMap (TBase KString) (TInterface []) None"]
  by simp

text \<open>
  On a map whose key type is an interface type, the key type test rejects every
  binding: the first binding that the loop visits gives the internal error.
\<close>

lemma type_kind_underlying: "type_kind (underlying t) = type_kind t"
  by (induction t rule: underlying.induct) auto

lemma interface_key_type_not_assignable:
  assumes "type_kind kt = KInterface" and "type_kind t \<noteq> KInterface"
  shows "\<not> AssignableTo E kt t"
proof -
  from assms have ne: "t \<noteq> kt" by auto
  from assms have d: "\<not> directlyAssignable t kt"
    using ne by (simp add: directlyAssignable_def)
  have "type_kind (underlying t) \<noteq> KInterface"
    using assms(2) by (simp add: type_kind_underlying)
  then have "\<not> implements E t kt"
    by (cases "underlying t") (auto simp: implements_def)
  with d show ?thesis by (simp add: AssignableTo_def)
qed

lemma MapRule_interface_keyed_first_binding:
  assumes "map_value v = VMap kt et (Some kvs)" and "type_kind kt = KInterface"
    and "mr_keys r = kr # krs" and "typeOf (kr_key kr) = Some t" and "type_kind t \<noteq> KInterface"
  shows "MapRule_Validate E r v =
         Ret (Some (XErr (getErrorKeyName E (kr_key kr) @ '': key not the correct type'') ECInternal))"
proof -
  have "key_error E kt kvs kr = Ret (Some ErrInvKeyType)"
    using assms(4) interface_key_type_not_assignable [OF assms(2,5), of E]
    by (simp add: key_error_def)
  with assms(1,3) show ?thesis
    by (simp add: MapRule_Validate_def ErrInvKeyType_def)
qed

text \<open>
  C6 at \<^verbatim>\<open>Map(Key("x")).Validate(map[any]any{})\<close>: the string key is assignable to the
  key type \<^verbatim>\<open>any\<close> of the map, it is absent and required, and the result is the internal
  error for a wrong key type, not the key-missing error. The test asks whether the key
  type of the map is assignable to the type of the binding's key, which no interface
  type is. The same statement asks for the type of the binding's key, which panics for
  the key nil.
\<close>

theorem MapRule_interface_keyed_map:
  "AssignableTo env0 (TBase KString) (TInterface []) \<and>
   MapRule_Validate env0 \<lparr> mr_keys = [Key (VString ''x'') []], allowUnknown = False \<rparr>
     (VMap (TInterface []) (TInterface []) (Some []))
   = Ret (Some (XErr ''x: key not the correct type'' ECInternal)) \<and>
   MapRule_Validate env0 \<lparr> mr_keys = [Key VNil []], allowUnknown = False \<rparr>
     (VMap (TBase KString) (TInterface []) (Some []))
   = Panic"
  by (simp add: MapRule_Validate_def map_value_def key_error_def Key_def AssignableTo_def
      directlyAssignable_def implements_def ErrInvKeyType_def getErrorKeyName_def env0_def)



section \<open>No empty aggregate\<close>















end
